theory Spec2Isabelle
  imports Complex_Main
begin

section \<open>Values\<close>

text \<open>
  The program is \<^verbatim>\<open>fatsecret_backend.py\<close>: five Flask handlers in front of the
  FatSecret API, sharing two module globals, \<^verbatim>\<open>cached_token\<close> and
  \<^verbatim>\<open>token_expiry\<close>. What the handlers write to the console with \<^verbatim>\<open>print\<close> is
  left out; everything else they do is a branch of the definitions below.

  A JSON document, as \<^verbatim>\<open>json.loads\<close> hands it to Python. Python's \<^verbatim>\<open>None\<close> is
  \<open>JNull\<close>; a \<^verbatim>\<open>dict\<close> is an association list read with \<open>map_of\<close>. A float
  is its exact rational value, or one of the three non-finite values that
  \<^verbatim>\<open>json.loads\<close> also accepts.
\<close>

datatype pyfloat = Finite rat | NaN | PosInf | NegInf

datatype json =
    JNull
  | JBool bool
  | JInt int
  | JFloat pyfloat
  | JStr string
  | JArr "json list"
  | JObj "(string \<times> json) list"

text \<open>Python's truth value of an object (\<^verbatim>\<open>if not data\<close>, \<^verbatim>\<open>if cached_token and ...\<close>).\<close>

fun truthy :: "json \<Rightarrow> bool" where
  "truthy JNull = False"
| "truthy (JBool b) = b"
| "truthy (JInt n) = (n \<noteq> 0)"
| "truthy (JFloat x) = (x \<noteq> Finite 0)"
| "truthy (JStr s) = (s \<noteq> [])"
| "truthy (JArr xs) = (xs \<noteq> [])"
| "truthy (JObj kvs) = (kvs \<noteq> [])"

text \<open>\<^verbatim>\<open>type(v).__name__\<close>, as it appears in the interpreter's error messages.\<close>

fun type_name :: "json \<Rightarrow> string" where
  "type_name JNull = ''NoneType''"
| "type_name (JBool b) = ''bool''"
| "type_name (JInt n) = ''int''"
| "type_name (JFloat x) = ''float''"
| "type_name (JStr s) = ''str''"
| "type_name (JArr xs) = ''list''"
| "type_name (JObj kvs) = ''dict''"

fun is_dict :: "json \<Rightarrow> bool" where
  "is_dict (JObj kvs) = True"
| "is_dict v = False"

text \<open>\<^verbatim>\<open>v == n\<close> for an integer literal \<open>n\<close>: numbers compare by value, \<^verbatim>\<open>True\<close> is 1.\<close>

fun py_eq_int :: "json \<Rightarrow> int \<Rightarrow> bool" where
  "py_eq_int (JInt m) n = (m = n)"
| "py_eq_int (JFloat (Finite r)) n = (r = of_int n)"
| "py_eq_int (JBool b) n = ((if b then 1 else 0) = n)"
| "py_eq_int v n = False"

text \<open>\<^verbatim>\<open>sub in s\<close> on two strings: \<open>sub\<close> occurs in \<open>s\<close> as a contiguous block.\<close>

fun contains_str :: "string \<Rightarrow> string \<Rightarrow> bool" where
  "contains_str sub [] = (sub = [])"
| "contains_str sub (c # cs) = (take (length sub) (c # cs) = sub \<or> contains_str sub cs)"

text \<open>\<^verbatim>\<open>str(n)\<close> of an integer: decimal digits, a minus sign when negative.\<close>

function str_nat :: "nat \<Rightarrow> string" where
  "str_nat n =
     (if n < 10 then [''0123456789'' ! n]
      else str_nat (n div 10) @ [''0123456789'' ! (n mod 10)])"
  by pat_completeness auto
termination
  by (relation "measure id") auto

definition str_int :: "int \<Rightarrow> string" where
  "str_int n = (if n < 0 then CHR ''-'' # str_nat (nat (- n)) else str_nat (nat n))"

section \<open>Exceptions\<close>

text \<open>
  The errors the interpreter itself raises while the handlers take values apart. They
  are kept symbolic; how Python words \<^verbatim>\<open>str(e)\<close> for them is read from the
  environment (\<open>wording\<close> below).
\<close>

datatype fault =
    KeyError string
  | NotSubscriptable string string
  | NotContainer string
  | NoAttribute string string
  | BadTimedelta json
  | DateOverflow
  | UnboundLocal string

text \<open>
  An exception object, by the classes the \<^verbatim>\<open>except\<close> clauses of the source tell
  apart. \<open>RequestsJSONDecodeError\<close> is the error of \<^verbatim>\<open>response.json()\<close> in
  requests from 2.27 on: both a \<^verbatim>\<open>RequestException\<close> and a
  \<^verbatim>\<open>json.JSONDecodeError\<close>. \<open>HTTPException\<close> is werkzeug's abort of a request
  (for example 415 from \<^verbatim>\<open>request.json\<close> on a body that is not JSON).
  The string is \<^verbatim>\<open>str(e)\<close>.
\<close>

datatype pyexn =
    RequestException string
  | RequestsJSONDecodeError string
  | JSONDecodeError string
  | ValueError string
  | HTTPException int string
  | OtherException string
  | Interp fault

fun is_RequestException :: "pyexn \<Rightarrow> bool" where
  "is_RequestException (RequestException m) = True"
| "is_RequestException (RequestsJSONDecodeError m) = True"
| "is_RequestException x = False"

fun is_JSONDecodeError :: "pyexn \<Rightarrow> bool" where
  "is_JSONDecodeError (JSONDecodeError m) = True"
| "is_JSONDecodeError (RequestsJSONDecodeError m) = True"
| "is_JSONDecodeError x = False"

fun is_ValueError :: "pyexn \<Rightarrow> bool" where
  "is_ValueError (ValueError m) = True"
| "is_ValueError (JSONDecodeError m) = True"
| "is_ValueError (RequestsJSONDecodeError m) = True"
| "is_ValueError x = False"

section \<open>HTTP messages\<close>

text \<open>What \<^verbatim>\<open>requests.post\<close> is given: \<^verbatim>\<open>data=\<close> a string or a dict, or \<^verbatim>\<open>files=\<close>.\<close>

datatype payload =
    Data string
  | Form "(string \<times> json) list"
  | Files "(string \<times> string option \<times> string \<times> string option) list"

record http_request =
  url :: string
  headers :: "(string \<times> string) list"
  payload :: payload

record http_response =
  status_code :: int
  body_text :: string

datatype net_result = Returns http_response | Raises pyexn

text \<open>
  The inbound Flask request, as far as the handlers read it: the value of
  \<^verbatim>\<open>request.json\<close> (or the exception that reading it raises) and
  \<^verbatim>\<open>request.files\<close>.
\<close>

record file_storage =
  filename :: string
  content :: string
  content_type :: string

record flask_request =
  json :: "pyexn + json"
  files :: "(string \<times> file_storage) list"

text \<open>How a view function ends: an exception escapes it, or it returns a body and a status.\<close>

datatype outcome = Raised pyexn | Response json int

section \<open>The environment and the process state\<close>

text \<open>
  Everything the source takes from outside its own text is a field of the environment:
  the credentials read at import, the library functions (\<^verbatim>\<open>base64.b64encode\<close>,
  \<^verbatim>\<open>json.loads\<close>, with \<open>Inl\<close> the message of its \<^verbatim>\<open>JSONDecodeError\<close>), the
  exception \<^verbatim>\<open>response.json()\<close> raises on a body that does not parse (its class
  depends on the installed requests), the interpreter's wording of its errors and of
  \<^verbatim>\<open>str\<close> on values other than strings and integers, the rounding of a float
  number of seconds to microseconds in \<^verbatim>\<open>timedelta\<close>, the clock (the \<open>i\<close>-th
  call of \<^verbatim>\<open>datetime.now()\<close> of the process, in microseconds since
  0001-01-01T00:00:00) and the network (what the \<open>i\<close>-th call of
  \<^verbatim>\<open>requests.post\<close> of the process does with its request).
\<close>

record env =
  FATSECRET_CLIENT_ID :: string
  FATSECRET_CLIENT_SECRET :: string
  b64encode :: "string \<Rightarrow> string"
  json_loads :: "string \<Rightarrow> string + json"
  response_json_error :: "string \<Rightarrow> pyexn"
  wording :: "fault \<Rightarrow> string"
  str_other :: "json \<Rightarrow> string"
  float_microseconds :: "rat \<Rightarrow> int"
  clock :: "nat \<Rightarrow> int"
  post :: "nat \<Rightarrow> http_request \<Rightarrow> net_result"

text \<open>
  The two globals, with what the process has done so far: how often it has read the
  clock, and the requests it has sent with their results, oldest first.
\<close>

record world =
  cached_token :: json
  token_expiry :: "int option"
  tick :: nat
  log :: "(http_request \<times> net_result) list"

definition datetime_now :: "env \<Rightarrow> world \<Rightarrow> int \<times> world" where
  "datetime_now e w = (clock e (tick w), w\<lparr>tick := Suc (tick w)\<rparr>)"

definition requests_post :: "env \<Rightarrow> http_request \<Rightarrow> world \<Rightarrow> net_result \<times> world" where
  "requests_post e rq w =
     (let res = post e (length (log w)) rq in (res, w\<lparr>log := log w @ [(rq, res)]\<rparr>))"

fun str_exn :: "env \<Rightarrow> pyexn \<Rightarrow> string" where
  "str_exn e (RequestException m) = m"
| "str_exn e (RequestsJSONDecodeError m) = m"
| "str_exn e (JSONDecodeError m) = m"
| "str_exn e (ValueError m) = m"
| "str_exn e (HTTPException c m) = m"
| "str_exn e (OtherException m) = m"
| "str_exn e (Interp f) = wording e f"

text \<open>\<^verbatim>\<open>f"{v}"\<close>: a string is itself, an integer its decimal digits.\<close>

fun py_str :: "env \<Rightarrow> json \<Rightarrow> string" where
  "py_str e (JStr s) = s"
| "py_str e (JInt n) = str_int n"
| "py_str e v = str_other e v"

section \<open>Operations on values that can raise\<close>

text \<open>\<^verbatim>\<open>v[k]\<close> with a string key: only a dict has one.\<close>

fun subscript :: "json \<Rightarrow> string \<Rightarrow> pyexn + json" where
  "subscript (JObj kvs) k =
     (case map_of kvs k of
        None \<Rightarrow> Inl (Interp (KeyError k))
      | Some x \<Rightarrow> Inr x)"
| "subscript v k = Inl (Interp (NotSubscriptable (type_name v) k))"

text \<open>
  \<^verbatim>\<open>k in v\<close> with a string \<open>k\<close>: a key of a dict, an element of a list, a
  substring of a string; a \<^verbatim>\<open>TypeError\<close> on anything else.
\<close>

fun py_in :: "string \<Rightarrow> json \<Rightarrow> pyexn + bool" where
  "py_in k (JObj kvs) = Inr (map_of kvs k \<noteq> None)"
| "py_in k (JArr xs) = Inr (JStr k \<in> set xs)"
| "py_in k (JStr s) = Inr (contains_str k s)"
| "py_in k v = Inl (Interp (NotContainer (type_name v)))"

text \<open>\<^verbatim>\<open>v.get(k, d)\<close>: an \<^verbatim>\<open>AttributeError\<close> unless \<open>v\<close> is a dict.\<close>

fun dict_get :: "json \<Rightarrow> string \<Rightarrow> json \<Rightarrow> pyexn + json" where
  "dict_get (JObj kvs) k d = Inr (case map_of kvs k of None \<Rightarrow> d | Some x \<Rightarrow> x)"
| "dict_get v k d = Inl (Interp (NoAttribute (type_name v) ''get''))"

text \<open>
  \<^verbatim>\<open>timedelta(seconds=v)\<close>, in microseconds. A \<^verbatim>\<open>timedelta\<close> holds between
  -999999999 days and 999999999 days 23:59:59.999999; the constructor raises outside
  that range, on a non-finite float and on a value that is not a number.
\<close>

definition timedelta_in_range :: "int \<Rightarrow> bool" where
  "timedelta_in_range us =
     (- (999999999 * 86400 * 1000000) \<le> us \<and> us < 1000000000 * 86400 * 1000000)"

fun timedelta_seconds :: "env \<Rightarrow> json \<Rightarrow> pyexn + int" where
  "timedelta_seconds e (JInt n) =
     (if timedelta_in_range (n * 1000000) then Inr (n * 1000000)
      else Inl (Interp (BadTimedelta (JInt n))))"
| "timedelta_seconds e (JBool b) = Inr (if b then 1000000 else 0)"
| "timedelta_seconds e (JFloat (Finite r)) =
     (if timedelta_in_range (float_microseconds e r) then Inr (float_microseconds e r)
      else Inl (Interp (BadTimedelta (JFloat (Finite r)))))"
| "timedelta_seconds e v = Inl (Interp (BadTimedelta v))"

text \<open>A \<^verbatim>\<open>datetime\<close> lies between 0001-01-01T00:00:00 and 9999-12-31T23:59:59.999999.\<close>

definition datetime_in_range :: "int \<Rightarrow> bool" where
  "datetime_in_range t = (0 \<le> t \<and> t < 3652059 * 86400 * 1000000)"

text \<open>
  \<^verbatim>\<open>td.seconds\<close> of a \<^verbatim>\<open>timedelta\<close> of \<open>us\<close> microseconds: Python keeps a
  \<^verbatim>\<open>timedelta\<close> as days, seconds (0 to 86399) and microseconds, and this attribute is
  the middle field.
\<close>

definition timedelta_seconds_field :: "int \<Rightarrow> int" where
  "timedelta_seconds_field us = (us mod (86400 * 1000000)) div 1000000"

section \<open>The token manager\<close>

text \<open>Lines 41 to 50 of \<^verbatim>\<open>get_fatsecret_token\<close>: the request to the token endpoint.\<close>

definition token_url :: string where
  "token_url = ''https://oauth.fatsecret.com/connect/token''"

definition token_request :: "env \<Rightarrow> http_request" where
  "token_request e =
     \<lparr>url = token_url,
      headers =
        [(''Authorization'',
          ''Basic '' @ b64encode e (FATSECRET_CLIENT_ID e @ '':'' @ FATSECRET_CLIENT_SECRET e)),
         (''Content-Type'', ''application/x-www-form-urlencoded'')],
      payload = Data ''grant_type=client_credentials&scope=basic barcode''\<rparr>"

text \<open>Lines 78 to 83: the \<^verbatim>\<open>except Exception\<close> clause around the token fetch.\<close>

definition token_exception :: "env \<Rightarrow> pyexn \<Rightarrow> json \<times> int" where
  "token_exception e x =
     (JObj [(''error'', JStr ''Exception during token fetch''),
            (''details'', JStr (str_exn e x))], 500)"

text \<open>
  Lines 55 to 62, the branch for status 200. Each statement can raise, and the
  assignments before it have happened by then: the world comes back as the raise left
  it. In \<^verbatim>\<open>datetime.now() + timedelta(seconds=expires_in)\<close> the clock is read first.
\<close>

definition token_success :: "env \<Rightarrow> http_response \<Rightarrow> world \<Rightarrow> (pyexn + json \<times> int) \<times> world" where
  "token_success e r w =
     (case json_loads e (body_text r) of
        Inl m \<Rightarrow> (Inl (JSONDecodeError m), w)
      | Inr data \<Rightarrow>
          (case subscript data ''access_token'' of
             Inl x \<Rightarrow> (Inl x, w)
           | Inr tok \<Rightarrow>
               (let w1 = w\<lparr>cached_token := tok\<rparr> in
                case subscript data ''expires_in'' of
                  Inl x \<Rightarrow> (Inl x, w1)
                | Inr expires_in \<Rightarrow>
                    (let (t, w2) = datetime_now e w1 in
                     case timedelta_seconds e expires_in of
                       Inl x \<Rightarrow> (Inl x, w2)
                     | Inr d \<Rightarrow>
                         if datetime_in_range (t + d)
                         then (Inr (JObj [(''access_token'', tok), (''expires_in'', expires_in)], 200),
                               w2\<lparr>token_expiry := Some (t + d)\<rparr>)
                         else (Inl (Interp DateOverflow), w2)))))"

text \<open>\<^verbatim>\<open>response.json()\<close>.\<close>

definition response_json :: "env \<Rightarrow> http_response \<Rightarrow> pyexn + json" where
  "response_json e r =
     (case json_loads e (body_text r) of
        Inl m \<Rightarrow> Inl (response_json_error e m)
      | Inr v \<Rightarrow> Inr v)"

text \<open>
  Lines 66 to 70, the body of the inner \<^verbatim>\<open>try\<close>: the new value of
  \<^verbatim>\<open>error_details\<close>, or \<open>None\<close> when neither key is there, or the exception.
\<close>

definition error_details_from_json :: "env \<Rightarrow> http_response \<Rightarrow> pyexn + json option" where
  "error_details_from_json e r =
     (case response_json e r of
        Inl x \<Rightarrow> Inl x
      | Inr error_json \<Rightarrow>
          (case py_in ''error_description'' error_json of
             Inl x \<Rightarrow> Inl x
           | Inr True \<Rightarrow>
               (case subscript error_json ''error_description'' of
                  Inl x \<Rightarrow> Inl x
                | Inr v \<Rightarrow> Inr (Some v))
           | Inr False \<Rightarrow>
               (case py_in ''error'' error_json of
                  Inl x \<Rightarrow> Inl x
                | Inr True \<Rightarrow>
                    (case subscript error_json ''error'' of
                       Inl x \<Rightarrow> Inl x
                     | Inr v \<Rightarrow> Inr (Some v))
                | Inr False \<Rightarrow> Inr None)))"

text \<open>
  Lines 64 to 77, the branch for any other status. The inner \<^verbatim>\<open>except ValueError\<close>
  keeps the raw text; any other exception leaves the branch for the outer clause.
\<close>

definition token_failure :: "env \<Rightarrow> http_response \<Rightarrow> pyexn + json \<times> int" where
  "token_failure e r =
     (let failed = (\<lambda>error_details.
            (JObj [(''error'', JStr (''FatSecret token request failed: '' @ str_int (status_code r))),
                   (''details'', error_details)], 400))
      in case error_details_from_json e r of
           Inl x \<Rightarrow> if is_ValueError x then Inr (failed (JStr (body_text r))) else Inl x
         | Inr None \<Rightarrow> Inr (failed (JStr (body_text r)))
         | Inr (Some v) \<Rightarrow> Inr (failed v))"

text \<open>Lines 41 to 83: the refresh, one request to the token endpoint.\<close>

definition fetch_token :: "env \<Rightarrow> world \<Rightarrow> (json \<times> int) \<times> world" where
  "fetch_token e w =
     (let (res, w1) = requests_post e (token_request e) w in
      case res of
        Raises x \<Rightarrow> (token_exception e x, w1)
      | Returns r \<Rightarrow>
          if status_code r = 200
          then (case token_success e r w1 of
                  (Inl x, w2) \<Rightarrow> (token_exception e x, w2)
                | (Inr out, w2) \<Rightarrow> (out, w2))
          else (case token_failure e r of
                  Inl x \<Rightarrow> (token_exception e x, w1)
                | Inr out \<Rightarrow> (out, w1)))"

text \<open>
  \<^verbatim>\<open>get_fatsecret_token\<close>, the view of GET /fatsecret_token, which the other
  handlers also call as a function. The condition of line 35 reads the clock only when
  both globals are truthy; line 38 reads it again.
\<close>

definition get_fatsecret_token :: "env \<Rightarrow> world \<Rightarrow> (json \<times> int) \<times> world" where
  "get_fatsecret_token e w =
     (if truthy (cached_token w)
      then (case token_expiry w of
              None \<Rightarrow> fetch_token e w
            | Some expiry \<Rightarrow>
                (let (t, w1) = datetime_now e w in
                 if t < expiry
                 then (let (t2, w2) = datetime_now e w1 in
                       ((JObj [(''access_token'', cached_token w2),
                               (''expires_in'', JInt (timedelta_seconds_field (expiry - t2)))], 200),
                        w2))
                 else fetch_token e w1))
      else fetch_token e w)"

section \<open>The proxy handlers\<close>

text \<open>
  The condition \<^verbatim>\<open>not cached_token or not token_expiry or datetime.now() >= token_expiry\<close>
  of lines 110, 201, 288 and 369, with the world after its evaluation.
\<close>

definition cache_stale :: "env \<Rightarrow> world \<Rightarrow> bool \<times> world" where
  "cache_stale e w =
     (if truthy (cached_token w)
      then (case token_expiry w of
              None \<Rightarrow> (True, w)
            | Some expiry \<Rightarrow> (let (t, w1) = datetime_now e w in (expiry \<le> t, w1)))
      else (True, w))"

text \<open>
  Lines 110 to 120, and the same text at 201 to 211 and 288 to 298: \<open>Some\<close> is the
  handler's early return. \<open>get_fatsecret_token\<close> catches what it raises, so the
  \<^verbatim>\<open>except\<close> clause of these lines has nothing to catch.
\<close>

definition ensure_token :: "env \<Rightarrow> world \<Rightarrow> outcome option \<times> world" where
  "ensure_token e w =
     (let (stale, w1) = cache_stale e w in
      if stale
      then (let (token_response, w2) = get_fatsecret_token e w1 in
            if snd token_response \<noteq> 200
            then (Some (Response (fst token_response) (snd token_response)), w2)
            else (None, w2))
      else (None, w1))"

definition api_url :: string where
  "api_url = ''https://platform.fatsecret.com/rest/server.api''"

text \<open>
  The three \<^verbatim>\<open>except\<close> clauses that close each proxy handler, in the source's
  order; the handlers differ in the three messages. The second clause reads
  \<^verbatim>\<open>response.text\<close>, which is unbound when \<^verbatim>\<open>requests.post\<close> itself raised.
\<close>

definition except_chain ::
  "env \<Rightarrow> string \<times> string \<times> string \<Rightarrow> http_response option \<Rightarrow> pyexn \<Rightarrow> outcome" where
  "except_chain e messages response x =
     (case messages of (on_request, on_json, on_other) \<Rightarrow>
        if is_RequestException x
        then Response (JObj [(''error'', JStr on_request), (''details'', JStr (str_exn e x))]) 500
        else if is_JSONDecodeError x
        then (case response of
                None \<Rightarrow> Raised (Interp (UnboundLocal ''response''))
              | Some r \<Rightarrow>
                  Response (JObj [(''error'', JStr on_json), (''details'', JStr (str_exn e x)),
                                  (''response'', JStr (body_text r))]) 500)
        else Response (JObj [(''error'', JStr on_other), (''details'', JStr (str_exn e x))]) 500)"

text \<open>
  Lines 139 to 177 of \<^verbatim>\<open>search_foods\<close>, and the same text at 227 to 265 and 306 to
  351: send the request, pass a 200 body through, map everything else.
\<close>

definition forward ::
  "env \<Rightarrow> string \<times> string \<times> string \<Rightarrow> http_request \<Rightarrow> world \<Rightarrow> outcome \<times> world" where
  "forward e messages rq w =
     (let (res, w1) = requests_post e rq w in
      (case res of
         Raises x \<Rightarrow> except_chain e messages None x
       | Returns r \<Rightarrow>
           if status_code r \<noteq> 200
           then Response (JObj [(''error'', JStr (''FatSecret API returned status '' @ str_int (status_code r))),
                                (''details'', JStr (body_text r))]) (status_code r)
           else (case response_json e r of
                   Inl x \<Rightarrow> except_chain e messages (Some r) x
                 | Inr response_data \<Rightarrow> Response response_data 200),
       w1))"

definition bearer :: "env \<Rightarrow> world \<Rightarrow> string \<times> string" where
  "bearer e w = (''Authorization'', ''Bearer '' @ py_str e (cached_token w))"

definition form_request :: "env \<Rightarrow> world \<Rightarrow> (string \<times> json) list \<Rightarrow> http_request" where
  "form_request e w form_data =
     \<lparr>url = api_url,
      headers = [bearer e w, (''Content-Type'', ''application/x-www-form-urlencoded'')],
      payload = Form form_data\<rparr>"

subsection \<open>POST /fatsecret_search\<close>

text \<open>Lines 94 to 107: \<open>Inl\<close> ends the handler, \<open>Inr\<close> is (query, page_number, max_results).\<close>

definition search_input :: "flask_request \<Rightarrow> outcome + json \<times> json \<times> json" where
  "search_input req =
     (case json req of
        Inl x \<Rightarrow> Inl (Raised x)
      | Inr data \<Rightarrow>
          if \<not> truthy data
          then Inl (Response (JObj [(''error'', JStr ''No JSON data received'')]) 400)
          else (case dict_get data ''query'' (JStr []) of
                  Inl x \<Rightarrow> Inl (Raised x)
                | Inr query \<Rightarrow>
                    if \<not> truthy query
                    then Inl (Response (JObj [(''error'', JStr ''No search query provided'')]) 400)
                    else (case dict_get data ''page_number'' (JStr ''0'') of
                            Inl x \<Rightarrow> Inl (Raised x)
                          | Inr page_number \<Rightarrow>
                              (case dict_get data ''max_results'' (JStr ''10'') of
                                 Inl x \<Rightarrow> Inl (Raised x)
                               | Inr max_results \<Rightarrow> Inr (query, page_number, max_results)))))"

definition search_messages :: "string \<times> string \<times> string" where
  "search_messages =
     (''Exception during FatSecret search request'',
      ''Failed to parse FatSecret response as JSON'',
      ''Unexpected exception during FatSecret search'')"

definition search_request :: "env \<Rightarrow> world \<Rightarrow> json \<times> json \<times> json \<Rightarrow> http_request" where
  "search_request e w args =
     (case args of (query, page_number, max_results) \<Rightarrow>
        form_request e w
          [(''method'', JStr ''foods.search''),
           (''search_expression'', query),
           (''format'', JStr ''json''),
           (''page_number'', page_number),
           (''max_results'', max_results)])"

definition search_foods :: "env \<Rightarrow> flask_request \<Rightarrow> world \<Rightarrow> outcome \<times> world" where
  "search_foods e req w =
     (case search_input req of
        Inl out \<Rightarrow> (out, w)
      | Inr args \<Rightarrow>
          (case ensure_token e w of
             (Some out, w1) \<Rightarrow> (out, w1)
           | (None, w1) \<Rightarrow> forward e search_messages (search_request e w1 args) w1))"

subsection \<open>POST /fatsecret_food_details\<close>

text \<open>Lines 188 to 198.\<close>

definition food_details_input :: "flask_request \<Rightarrow> outcome + json" where
  "food_details_input req =
     (case json req of
        Inl x \<Rightarrow> Inl (Raised x)
      | Inr data \<Rightarrow>
          if \<not> truthy data
          then Inl (Response (JObj [(''error'', JStr ''No JSON data received'')]) 400)
          else (case dict_get data ''food_id'' (JStr []) of
                  Inl x \<Rightarrow> Inl (Raised x)
                | Inr food_id \<Rightarrow>
                    if \<not> truthy food_id
                    then Inl (Response (JObj [(''error'', JStr ''No food ID provided'')]) 400)
                    else Inr food_id))"

definition food_details_messages :: "string \<times> string \<times> string" where
  "food_details_messages =
     (''Exception during FatSecret food details request'',
      ''Failed to parse FatSecret food details response as JSON'',
      ''Unexpected exception during FatSecret food details fetch'')"

definition food_details_request :: "env \<Rightarrow> world \<Rightarrow> json \<Rightarrow> http_request" where
  "food_details_request e w food_id =
     form_request e w
       [(''method'', JStr ''food.get.v2''),
        (''food_id'', food_id),
        (''format'', JStr ''json'')]"

definition get_food_details :: "env \<Rightarrow> flask_request \<Rightarrow> world \<Rightarrow> outcome \<times> world" where
  "get_food_details e req w =
     (case food_details_input req of
        Inl out \<Rightarrow> (out, w)
      | Inr food_id \<Rightarrow>
          (case ensure_token e w of
             (Some out, w1) \<Rightarrow> (out, w1)
           | (None, w1) \<Rightarrow>
               forward e food_details_messages (food_details_request e w1 food_id) w1))"

subsection \<open>POST /fatsecret_image_recognition\<close>

text \<open>Lines 276 to 285.\<close>

definition image_input :: "flask_request \<Rightarrow> outcome + file_storage" where
  "image_input req =
     (case map_of (files req) ''image'' of
        None \<Rightarrow> Inl (Response (JObj [(''error'', JStr ''No image file provided'')]) 400)
      | Some image_file \<Rightarrow>
          if filename image_file = []
          then Inl (Response (JObj [(''error'', JStr ''Empty image file'')]) 400)
          else Inr image_file)"

definition image_messages :: "string \<times> string \<times> string" where
  "image_messages =
     (''Exception during FatSecret image recognition request'',
      ''Failed to parse FatSecret image recognition response as JSON'',
      ''Unexpected exception during FatSecret image recognition'')"

definition image_request :: "env \<Rightarrow> world \<Rightarrow> file_storage \<Rightarrow> http_request" where
  "image_request e w image_file =
     \<lparr>url = api_url,
      headers = [bearer e w],
      payload = Files
        [(''method'', (None, ''food.recognize'', None)),
         (''format'', (None, ''json'', None)),
         (''image'', (Some (filename image_file), content image_file,
                      Some (content_type image_file)))]\<rparr>"

definition recognize_food_from_image :: "env \<Rightarrow> flask_request \<Rightarrow> world \<Rightarrow> outcome \<times> world" where
  "recognize_food_from_image e req w =
     (case image_input req of
        Inl out \<Rightarrow> (out, w)
      | Inr image_file \<Rightarrow>
          (case ensure_token e w of
             (Some out, w1) \<Rightarrow> (out, w1)
           | (None, w1) \<Rightarrow> forward e image_messages (image_request e w1 image_file) w1))"

subsection \<open>POST /fatsecret_barcode_lookup\<close>

text \<open>Lines 360 to 366.\<close>

definition barcode_input :: "flask_request \<Rightarrow> outcome + json" where
  "barcode_input req =
     (case json req of
        Inl x \<Rightarrow> Inl (Raised x)
      | Inr data \<Rightarrow>
          if \<not> truthy data
          then Inl (Response (JObj [(''error'', JStr ''No JSON data received'')]) 400)
          else (case dict_get data ''barcode'' (JStr []) of
                  Inl x \<Rightarrow> Inl (Raised x)
                | Inr barcode \<Rightarrow>
                    if \<not> truthy barcode
                    then Inl (Response (JObj [(''error'', JStr ''No barcode provided'')]) 400)
                    else Inr barcode))"

text \<open>
  Lines 372 to 381: what this handler makes of the pair \<open>get_fatsecret_token\<close>
  returned. \<open>token_data\<close> is the body the pair carries (the response object itself is
  always truthy); \<open>Some\<close> is the handler's early return.
\<close>

definition barcode_token_failed :: "env \<Rightarrow> json \<Rightarrow> int \<Rightarrow> outcome" where
  "barcode_token_failed e token_data status =
     (if truthy token_data
      then (case dict_get token_data ''details'' (JStr ''Unknown token error'') of
              Inl x \<Rightarrow>
                Response (JObj [(''error'', JStr ''Exception refreshing token''),
                                (''details'', JStr (str_exn e x))]) 500
            | Inr details \<Rightarrow>
                Response (JObj [(''error'', JStr ''Failed to refresh token for barcode lookup''),
                                (''details'', details)]) status)
      else Response (JObj [(''error'', JStr ''Failed to refresh token for barcode lookup''),
                           (''details'', JStr ''Unknown token error'')]) status)"

definition barcode_token_check :: "env \<Rightarrow> json \<times> int \<Rightarrow> outcome option" where
  "barcode_token_check e token_response_tuple =
     (case token_response_tuple of (token_data, status) \<Rightarrow>
        if status \<noteq> 200 then Some (barcode_token_failed e token_data status)
        else if \<not> truthy token_data then Some (barcode_token_failed e token_data status)
        else (case py_in ''access_token'' token_data of
                Inl x \<Rightarrow>
                  Some (Response (JObj [(''error'', JStr ''Exception refreshing token''),
                                        (''details'', JStr (str_exn e x))]) 500)
              | Inr True \<Rightarrow> None
              | Inr False \<Rightarrow> Some (barcode_token_failed e token_data status)))"

text \<open>Lines 369 to 381.\<close>

definition barcode_ensure_token :: "env \<Rightarrow> world \<Rightarrow> outcome option \<times> world" where
  "barcode_ensure_token e w =
     (let (stale, w1) = cache_stale e w in
      if stale
      then (let (token_response_tuple, w2) = get_fatsecret_token e w1 in
            (barcode_token_check e token_response_tuple, w2))
      else (None, w1))"

definition barcode_request :: "env \<Rightarrow> world \<Rightarrow> json \<Rightarrow> http_request" where
  "barcode_request e w barcode =
     form_request e w
       [(''method'', JStr ''food.find_id_for_barcode''),
        (''barcode'', barcode),
        (''format'', JStr ''json'')]"

text \<open>
  The condition of line 413, \<^verbatim>\<open>'food_id' in response_data and response_data['food_id']
  and isinstance(response_data['food_id'], dict) and 'value' in response_data['food_id']\<close>,
  evaluated left to right.
\<close>

definition has_food_id_value :: "json \<Rightarrow> pyexn + bool" where
  "has_food_id_value response_data =
     (case py_in ''food_id'' response_data of
        Inl x \<Rightarrow> Inl x
      | Inr False \<Rightarrow> Inr False
      | Inr True \<Rightarrow>
          (case subscript response_data ''food_id'' of
             Inl x \<Rightarrow> Inl x
           | Inr food_id \<Rightarrow>
               if \<not> truthy food_id then Inr False
               else if \<not> is_dict food_id then Inr False
               else py_in ''value'' food_id))"

text \<open>
  Lines 418 to 429, under the condition of line 413. The test of line 422 repeats that
  condition on the same value.
\<close>

definition barcode_found :: "json \<Rightarrow> pyexn + json \<times> int" where
  "barcode_found response_data =
     (case py_in ''error'' response_data of
        Inl x \<Rightarrow> Inl x
      | Inr True \<Rightarrow>
          (case subscript response_data ''error'' of
             Inl x \<Rightarrow> Inl x
           | Inr err \<Rightarrow>
               (case subscript err ''message'' of
                  Inl x \<Rightarrow> Inl x
                | Inr message \<Rightarrow>
                    Inr (JObj [(''error'', JStr ''Food not found for this barcode''),
                               (''details'', message)], 404)))
      | Inr False \<Rightarrow>
          (case dict_get response_data ''food_id'' JNull of
             Inl x \<Rightarrow> Inl x
           | Inr food_id_data \<Rightarrow>
               if \<not> truthy food_id_data
               then Inr (JObj [(''error'', JStr ''Barcode found, but food_id format unexpected''),
                               (''details'', response_data)], 500)
               else if \<not> is_dict food_id_data
               then Inr (JObj [(''error'', JStr ''Barcode found, but food_id format unexpected''),
                               (''details'', response_data)], 500)
               else (case py_in ''value'' food_id_data of
                       Inl x \<Rightarrow> Inl x
                     | Inr False \<Rightarrow>
                         Inr (JObj [(''error'', JStr ''Barcode found, but food_id format unexpected''),
                                    (''details'', response_data)], 500)
                     | Inr True \<Rightarrow>
                         (case subscript food_id_data ''value'' of
                            Inl x \<Rightarrow> Inl x
                          | Inr food_id_value \<Rightarrow>
                              Inr (JObj [(''food_id'', food_id_value),
                                         (''food_name'', JStr ''Food Item (Details will be fetched)'')],
                                   200)))))"

text \<open>
  Lines 432 to 436, under \<^verbatim>\<open>'error' in response_data\<close>. When the code is not 106,
  Python goes on to \<^verbatim>\<open>error_message.lower().contains("no item found")\<close>. A
  \<^verbatim>\<open>str\<close> has a method \<^verbatim>\<open>lower\<close> and no method \<^verbatim>\<open>contains\<close>, and no other
  JSON value has a method \<^verbatim>\<open>lower\<close>: the expression raises an
  \<^verbatim>\<open>AttributeError\<close> on every value, and the \<^verbatim>\<open>return\<close> of line 436 is never
  reached.
\<close>

definition barcode_error :: "json \<Rightarrow> pyexn + json \<times> int" where
  "barcode_error response_data =
     (case subscript response_data ''error'' of
        Inl x \<Rightarrow> Inl x
      | Inr err \<Rightarrow>
          (case dict_get err ''code'' (JStr ''Unknown'') of
             Inl x \<Rightarrow> Inl x
           | Inr error_code \<Rightarrow>
               (case dict_get err ''message'' (JStr ''Food not found for this barcode or API error.'') of
                  Inl x \<Rightarrow> Inl x
                | Inr error_message \<Rightarrow>
                    if py_eq_int error_code 106
                    then Inr (JObj [(''error'', JStr ''Food not found for this barcode'')], 404)
                    else (case error_message of
                            JStr s \<Rightarrow> Inl (Interp (NoAttribute ''str'' ''contains''))
                          | v \<Rightarrow> Inl (Interp (NoAttribute (type_name v) ''lower''))))))"

text \<open>Lines 407 to 440: the mapping of a 200 body, once parsed.\<close>

definition barcode_response :: "json \<Rightarrow> pyexn + json \<times> int" where
  "barcode_response response_data =
     (case has_food_id_value response_data of
        Inl x \<Rightarrow> Inl x
      | Inr True \<Rightarrow> barcode_found response_data
      | Inr False \<Rightarrow>
          (case py_in ''error'' response_data of
             Inl x \<Rightarrow> Inl x
           | Inr True \<Rightarrow> barcode_error response_data
           | Inr False \<Rightarrow>
               Inr (JObj [(''error'', JStr ''Food not found or unexpected API response.'')], 404)))"

definition barcode_messages :: "string \<times> string \<times> string" where
  "barcode_messages =
     (''Exception during FatSecret barcode lookup'',
      ''Failed to parse FatSecret barcode lookup response'',
      ''Unexpected exception during barcode lookup'')"

text \<open>Lines 394 to 447.\<close>

definition barcode_forward :: "env \<Rightarrow> http_request \<Rightarrow> world \<Rightarrow> outcome \<times> world" where
  "barcode_forward e rq w =
     (let (res, w1) = requests_post e rq w in
      (case res of
         Raises x \<Rightarrow> except_chain e barcode_messages None x
       | Returns r \<Rightarrow>
           if status_code r \<noteq> 200
           then Response (JObj [(''error'', JStr (''FatSecret API (barcode) returned status '' @ str_int (status_code r))),
                                (''details'', JStr (body_text r))]) (status_code r)
           else (case response_json e r of
                   Inl x \<Rightarrow> except_chain e barcode_messages (Some r) x
                 | Inr response_data \<Rightarrow>
                     (case barcode_response response_data of
                        Inl x \<Rightarrow> except_chain e barcode_messages (Some r) x
                      | Inr (body, status) \<Rightarrow> Response body status)),
       w1))"

definition lookup_barcode :: "env \<Rightarrow> flask_request \<Rightarrow> world \<Rightarrow> outcome \<times> world" where
  "lookup_barcode e req w =
     (case barcode_input req of
        Inl out \<Rightarrow> (out, w)
      | Inr barcode \<Rightarrow>
          (case barcode_ensure_token e w of
             (Some out, w1) \<Rightarrow> (out, w1)
           | (None, w1) \<Rightarrow> barcode_forward e (barcode_request e w1 barcode) w1))"

subsection \<open>The routes\<close>

datatype endpoint =
    Fatsecret_token
  | Fatsecret_search
  | Fatsecret_food_details
  | Fatsecret_image_recognition
  | Fatsecret_barcode_lookup

definition handle :: "env \<Rightarrow> endpoint \<Rightarrow> flask_request \<Rightarrow> world \<Rightarrow> outcome \<times> world" where
  "handle e ep req w =
     (case ep of
        Fatsecret_token \<Rightarrow>
          (let (token_response, w1) = get_fatsecret_token e w in
           (Response (fst token_response) (snd token_response), w1))
      | Fatsecret_search \<Rightarrow> search_foods e req w
      | Fatsecret_food_details \<Rightarrow> get_food_details e req w
      | Fatsecret_image_recognition \<Rightarrow> recognize_food_from_image e req w
      | Fatsecret_barcode_lookup \<Rightarrow> lookup_barcode e req w)"

text \<open>The part of a request that the handler of a route checks before anything else.\<close>

definition accepted :: "endpoint \<Rightarrow> flask_request \<Rightarrow> bool" where
  "accepted ep req =
     (case ep of
        Fatsecret_token \<Rightarrow> True
      | Fatsecret_search \<Rightarrow> \<not> isl (search_input req)
      | Fatsecret_food_details \<Rightarrow> \<not> isl (food_details_input req)
      | Fatsecret_image_recognition \<Rightarrow> \<not> isl (image_input req)
      | Fatsecret_barcode_lookup \<Rightarrow> \<not> isl (barcode_input req))"

section \<open>Observing a run\<close>

text \<open>
  The requests a run sent, with their results: what the log gained between the world
  before and the world after. The upstream call of a run is its request to the food API.
\<close>

definition new_exchanges :: "world \<Rightarrow> world \<Rightarrow> (http_request \<times> net_result) list" where
  "new_exchanges w w' = drop (length (log w)) (log w')"

definition upstream_call :: "world \<Rightarrow> world \<Rightarrow> (http_request \<times> net_result) option" where
  "upstream_call w w' = find (\<lambda>x. url (fst x) = api_url) (new_exchanges w w')"

text \<open>What the token endpoint answers when it is the next request of the process.\<close>

definition token_reply :: "env \<Rightarrow> world \<Rightarrow> net_result" where
  "token_reply e w = post e (length (log w)) (token_request e)"

text \<open>A token fetch made now fails: the request raises, or the status is not 200.\<close>

definition refresh_fails :: "env \<Rightarrow> world \<Rightarrow> bool" where
  "refresh_fails e w =
     (case token_reply e w of
        Raises x \<Rightarrow> True
      | Returns r \<Rightarrow> status_code r \<noteq> 200)"


text \<open>
  A request that fails the validation of its route, in the words of the specification:
  for the three JSON routes there is no JSON body to read, or the body has no non-empty
  value under the required key (which an empty body, and any body that is not an object,
  never has); for the image route there is no file \<^verbatim>\<open>image\<close>, or its filename is
  empty.
\<close>

definition required_key :: "endpoint \<Rightarrow> string" where
  "required_key ep =
     (case ep of
        Fatsecret_search \<Rightarrow> ''query''
      | Fatsecret_food_details \<Rightarrow> ''food_id''
      | Fatsecret_barcode_lookup \<Rightarrow> ''barcode''
      | _ \<Rightarrow> [])"

definition fails_validation :: "endpoint \<Rightarrow> flask_request \<Rightarrow> bool" where
  "fails_validation ep req =
     (case ep of
        Fatsecret_token \<Rightarrow> False
      | Fatsecret_image_recognition \<Rightarrow>
          (case map_of (files req) ''image'' of
             None \<Rightarrow> True
           | Some image_file \<Rightarrow> filename image_file = [])
      | _ \<Rightarrow>
          (case json req of
             Inl x \<Rightarrow> True
           | Inr data \<Rightarrow>
               (case data of
                  JObj kvs \<Rightarrow>
                    (case map_of kvs (required_key ep) of
                       None \<Rightarrow> True
                     | Some v \<Rightarrow> \<not> truthy v)
                | _ \<Rightarrow> True)))"

text \<open>
  The part of these requests that one of the two guards of a handler answers:
  \<^verbatim>\<open>request.json\<close> returned a falsy value (\<^verbatim>\<open>None\<close>, \<^verbatim>\<open>{}\<close>, \<^verbatim>\<open>[]\<close>, an
  empty string, zero, \<^verbatim>\<open>false\<close>), or it returned a non-empty object without a non-empty
  value under the required key; for the image route, every request that fails
  validation. Left out are the two cases for which the handlers have no guard: a
  non-empty body that is not an object, and \<^verbatim>\<open>request.json\<close> raising.
\<close>

definition caught_by_guard :: "endpoint \<Rightarrow> flask_request \<Rightarrow> bool" where
  "caught_by_guard ep req =
     (case ep of
        Fatsecret_token \<Rightarrow> False
      | Fatsecret_image_recognition \<Rightarrow>
          (case map_of (files req) ''image'' of
             None \<Rightarrow> True
           | Some image_file \<Rightarrow> filename image_file = [])
      | _ \<Rightarrow>
          (case json req of
             Inl x \<Rightarrow> False
           | Inr data \<Rightarrow>
               if truthy data
               then (case data of
                       JObj kvs \<Rightarrow>
                         (case map_of kvs (required_key ep) of
                            None \<Rightarrow> True
                          | Some v \<Rightarrow> \<not> truthy v)
                     | _ \<Rightarrow> False)
               else True))"

text \<open>
  The request a route sends to the food API for a request that passed its validation,
  built in the world the token step left behind (it carries the cached token);
  \<open>None\<close> where the validation ends the handler, and on the token route.
\<close>

definition api_request :: "env \<Rightarrow> endpoint \<Rightarrow> flask_request \<Rightarrow> world \<Rightarrow> http_request option" where
  "api_request e ep req w =
     (case ep of
        Fatsecret_token \<Rightarrow> None
      | Fatsecret_search \<Rightarrow>
          (case search_input req of
             Inl out \<Rightarrow> None
           | Inr args \<Rightarrow> Some (search_request e w args))
      | Fatsecret_food_details \<Rightarrow>
          (case food_details_input req of
             Inl out \<Rightarrow> None
           | Inr food_id \<Rightarrow> Some (food_details_request e w food_id))
      | Fatsecret_image_recognition \<Rightarrow>
          (case image_input req of
             Inl out \<Rightarrow> None
           | Inr image_file \<Rightarrow> Some (image_request e w image_file))
      | Fatsecret_barcode_lookup \<Rightarrow>
          (case barcode_input req of
             Inl out \<Rightarrow> None
           | Inr barcode \<Rightarrow> Some (barcode_request e w barcode)))"


section \<open>An example environment\<close>

text \<open>
  Rounding to the nearest integer, a tie to the even neighbour: how \<^verbatim>\<open>timedelta\<close>
  rounds a fraction of a microsecond. Python computes it on doubles; the examples take
  the exact value.
\<close>

definition round_half_even :: "rat \<Rightarrow> int" where
  "round_half_even x =
     (let n = \<lfloor>x\<rfloor>; d = x - of_int n
      in if d < 1 / 2 then n
         else if 1 / 2 < d then n + 1
         else if even n then n
         else n + 1)"

text \<open>
  The clock of the examples starts at 2026-01-01T00:00:00 and moves one microsecond per
  reading; \<^verbatim>\<open>json.loads\<close> and the network are given per example.
\<close>

definition example_env ::
  "(string \<Rightarrow> string + json) \<Rightarrow> (nat \<Rightarrow> http_request \<Rightarrow> net_result) \<Rightarrow> env" where
  "example_env loads net =
     \<lparr>FATSECRET_CLIENT_ID = ''YOUR_CLIENT_ID'',
      FATSECRET_CLIENT_SECRET = ''YOUR_CLIENT_SECRET'',
      b64encode = (\<lambda>s. s),
      json_loads = loads,
      response_json_error = RequestsJSONDecodeError,
      wording = (\<lambda>f. ''interpreter error''),
      str_other = (\<lambda>v. ''value''),
      float_microseconds = (\<lambda>r. round_half_even (r * 1000000)),
      clock = (\<lambda>i. 63902822400000000 + int i),
      post = net\<rparr>"

definition no_cache :: world where
  "no_cache = \<lparr>cached_token = JNull, token_expiry = None, tick = 0, log = []\<rparr>"

text \<open>A cache holding the token \<^verbatim>\<open>T\<close>, to expire the given number of seconds into 2026.\<close>

definition cache_until :: "int \<Rightarrow> world" where
  "cache_until s =
     \<lparr>cached_token = JStr ''T'',
      token_expiry = Some (63902822400000000 + s * 1000000),
      tick = 0, log = []\<rparr>"

definition json_request :: "json \<Rightarrow> flask_request" where
  "json_request data = \<lparr>json = Inr data, files = []\<rparr>"

definition always :: "int \<Rightarrow> string \<Rightarrow> nat \<Rightarrow> http_request \<Rightarrow> net_result" where
  "always status body i rq = Returns \<lparr>status_code = status, body_text = body\<rparr>"

text \<open>
  A multipart upload of one file under \<^verbatim>\<open>image\<close>; it has no JSON body, so reading
  \<^verbatim>\<open>request.json\<close> would raise.
\<close>

definition image_upload :: flask_request where
  "image_upload =
     \<lparr>json = Inl (HTTPException 415 ''Unsupported Media Type''),
      files = [(''image'', \<lparr>filename = ''meal.jpg'', content = ''JFIF'',
                           content_type = ''image/jpeg''\<rparr>)]\<rparr>"

text \<open>\<^verbatim>\<open>json.loads\<close> on the bodies of the examples; any other text does not parse.\<close>

definition example_loads :: "string \<Rightarrow> string + json" where
  "example_loads s =
     (if s = ''{\"access_token\": \"T2\", \"expires_in\": 86400}''
      then Inr (JObj [(''access_token'', JStr ''T2''), (''expires_in'', JInt 86400)])
      else if s = ''{\"access_token\": \"T2\", \"expires_in\": 90000}''
      then Inr (JObj [(''access_token'', JStr ''T2''), (''expires_in'', JInt 90000)])
      else if s = ''{\"food\": {\"food_id\": \"12345\"}}''
      then Inr (JObj [(''food'', JObj [(''food_id'', JStr ''12345'')])])
      else if s = ''{\"food_id\": {\"value\": \"999\"}}''
      then Inr (JObj [(''food_id'', JObj [(''value'', JStr ''999'')])])
      else if s = ''{\"error\": {\"code\": 106, \"message\": \"No item found\"}}''
      then Inr (JObj [(''error'', JObj [(''code'', JInt 106), (''message'', JStr ''No item found'')])])
      else if s = ''{\"error\": {\"code\": 211, \"message\": \"No item found\"}}''
      then Inr (JObj [(''error'', JObj [(''code'', JInt 211), (''message'', JStr ''No item found'')])])
      else if s = ''{\"error\": {\"code\": 2, \"message\": \"Missing required oauth parameter\"}}''
      then Inr (JObj [(''error'', JObj [(''code'', JInt 2),
                                        (''message'', JStr ''Missing required oauth parameter'')])])
      else if s = ''null''
      then Inr JNull
      else Inl ''Expecting value'')"

text \<open>A network whose token endpoint answers 200 with one body and whose food API answers
  with a given status and body.\<close>

definition example_net :: "string \<Rightarrow> int \<Rightarrow> string \<Rightarrow> nat \<Rightarrow> http_request \<Rightarrow> net_result" where
  "example_net token_body status body i rq =
     (if url rq = token_url
      then Returns \<lparr>status_code = 200, body_text = token_body\<rparr>
      else Returns \<lparr>status_code = status, body_text = body\<rparr>)"

section \<open>The effect of each step on the world\<close>

lemma urls_differ: "token_url \<noteq> api_url"
  by (simp add: token_url_def api_url_def)

lemma url_token_request: "url (token_request e) = token_url"
  by (simp add: token_request_def)

lemma url_form_request: "url (form_request e w form_data) = api_url"
  by (simp add: form_request_def)

lemma url_image_request: "url (image_request e w image_file) = api_url"
  by (simp add: image_request_def)

lemma token_success_effect:
  assumes "token_success e r w = (res, w')"
  shows "log w' = log w"
  using assms
  by (auto simp: token_success_def datetime_now_def Let_def
      split: sum.splits prod.splits if_splits)

lemma fetch_token_log:
  assumes "fetch_token e w = (out, w')"
  shows "log w' = log w @ [(token_request e, token_reply e w)]"
  using assms
  by (auto simp: fetch_token_def requests_post_def token_reply_def Let_def
      split: net_result.splits sum.splits prod.splits if_splits
      dest!: token_success_effect)

lemma fetch_token_fails:
  assumes "fetch_token e w = (out, w')" and "refresh_fails e w"
  shows "cached_token w' = cached_token w \<and> token_expiry w' = token_expiry w \<and> tick w' = tick w"
  using assms
  by (auto simp: fetch_token_def requests_post_def token_reply_def refresh_fails_def Let_def
      split: net_result.splits sum.splits prod.splits if_splits)

lemma refresh_fails_tick: "refresh_fails e (w\<lparr>tick := n\<rparr>) = refresh_fails e w"
  by (simp add: refresh_fails_def token_reply_def)

lemma token_reply_tick: "token_reply e (w\<lparr>tick := n\<rparr>) = token_reply e w"
  by (simp add: token_reply_def)

lemma get_fatsecret_token_log:
  assumes "get_fatsecret_token e w = (out, w')"
  shows "log w' = log w \<or> log w' = log w @ [(token_request e, token_reply e w)]"
  using assms
  by (auto simp: get_fatsecret_token_def datetime_now_def Let_def token_reply_tick
      split: option.splits if_splits dest!: fetch_token_log)

lemma fetch_token_fails_later:
  assumes "fetch_token e (w\<lparr>tick := n\<rparr>) = (out, w')" and "refresh_fails e w"
  shows "cached_token w' = cached_token w \<and> token_expiry w' = token_expiry w"
  using fetch_token_fails [of e "w\<lparr>tick := n\<rparr>" out w'] assms
  by (simp add: refresh_fails_tick)

lemma get_fatsecret_token_fails:
  assumes "get_fatsecret_token e w = (out, w')" and "refresh_fails e w"
  shows "cached_token w' = cached_token w \<and> token_expiry w' = token_expiry w"
  using assms
  by (auto simp: get_fatsecret_token_def datetime_now_def Let_def
      split: option.splits if_splits
      dest: fetch_token_fails_later fetch_token_fails)

lemma cache_stale_effect:
  assumes "cache_stale e w = (stale, w1)"
  shows "log w1 = log w \<and> cached_token w1 = cached_token w \<and> token_expiry w1 = token_expiry w"
  using assms
  by (auto simp: cache_stale_def datetime_now_def Let_def split: option.splits if_splits)

lemma cache_stale_reply:
  assumes "cache_stale e w = (stale, w1)"
  shows "token_reply e w1 = token_reply e w"
  using cache_stale_effect [OF assms] by (simp add: token_reply_def)

lemma forward_effect:
  assumes "forward e messages rq w = (out, w')"
  shows "log w' = log w @ [(rq, post e (length (log w)) rq)]
    \<and> cached_token w' = cached_token w \<and> token_expiry w' = token_expiry w \<and> tick w' = tick w"
  using assms
  by (auto simp: forward_def requests_post_def Let_def)

lemma barcode_forward_effect:
  assumes "barcode_forward e rq w = (out, w')"
  shows "log w' = log w @ [(rq, post e (length (log w)) rq)]
    \<and> cached_token w' = cached_token w \<and> token_expiry w' = token_expiry w \<and> tick w' = tick w"
  using assms
  by (auto simp: barcode_forward_def requests_post_def Let_def)

lemma cache_stale_fails:
  assumes "cache_stale e w = (stale, w1)"
  shows "refresh_fails e w1 = refresh_fails e w"
  using cache_stale_reply [OF assms] by (simp add: refresh_fails_def)

lemma ensure_token_fails:
  assumes "ensure_token e w = (early, w')" and "refresh_fails e w"
  shows "cached_token w' = cached_token w \<and> token_expiry w' = token_expiry w"
proof -
  obtain stale w1 where s: "cache_stale e w = (stale, w1)"
    by (cases "cache_stale e w")
  obtain tr w2 where g: "get_fatsecret_token e w1 = (tr, w2)"
    by (cases "get_fatsecret_token e w1")
  have f1: "refresh_fails e w1"
    using cache_stale_fails [OF s] assms(2) by simp
  have "w' = w1 \<or> w' = w2 \<and> stale"
    using assms(1) s g by (auto simp: ensure_token_def split: if_splits)
  then show ?thesis
    using cache_stale_effect [OF s] get_fatsecret_token_fails [OF g f1] by auto
qed

lemma barcode_ensure_token_fails:
  assumes "barcode_ensure_token e w = (early, w')" and "refresh_fails e w"
  shows "cached_token w' = cached_token w \<and> token_expiry w' = token_expiry w"
proof -
  obtain stale w1 where s: "cache_stale e w = (stale, w1)"
    by (cases "cache_stale e w")
  obtain tr w2 where g: "get_fatsecret_token e w1 = (tr, w2)"
    by (cases "get_fatsecret_token e w1")
  have f1: "refresh_fails e w1"
    using cache_stale_fails [OF s] assms(2) by simp
  have "w' = w1 \<or> w' = w2 \<and> stale"
    using assms(1) s g by (auto simp: barcode_ensure_token_def split: if_splits)
  then show ?thesis
    using cache_stale_effect [OF s] get_fatsecret_token_fails [OF g f1] by auto
qed

lemma proxy_fails:
  assumes "(case ensure_token e w of
              (Some early, w1) \<Rightarrow> (early, w1)
            | (None, w1) \<Rightarrow> forward e messages (mk w1) w1) = (out, w')"
    and "refresh_fails e w"
  shows "cached_token w' = cached_token w \<and> token_expiry w' = token_expiry w"
proof -
  obtain early w1 where t: "ensure_token e w = (early, w1)"
    by (cases "ensure_token e w")
  note k = ensure_token_fails [OF t assms(2)]
  show ?thesis
  proof (cases early)
    case None
    then have "forward e messages (mk w1) w1 = (out, w')"
      using assms(1) t by simp
    from forward_effect [OF this] k show ?thesis by simp
  next
    case (Some a)
    then have "w' = w1" using assms(1) t by simp
    then show ?thesis using k by simp
  qed
qed

lemma search_foods_fails:
  assumes "search_foods e req w = (out, w')" and "refresh_fails e w"
  shows "cached_token w' = cached_token w \<and> token_expiry w' = token_expiry w"
proof (cases "search_input req")
  case (Inl a)
  then show ?thesis using assms(1) by (simp add: search_foods_def)
next
  case (Inr args)
  then show ?thesis
    using assms(1) proxy_fails [where mk = "\<lambda>w1. search_request e w1 args", OF _ assms(2)]
    by (simp add: search_foods_def)
qed

lemma get_food_details_fails:
  assumes "get_food_details e req w = (out, w')" and "refresh_fails e w"
  shows "cached_token w' = cached_token w \<and> token_expiry w' = token_expiry w"
proof (cases "food_details_input req")
  case (Inl a)
  then show ?thesis using assms(1) by (simp add: get_food_details_def)
next
  case (Inr food_id)
  then show ?thesis
    using assms(1)
      proxy_fails [where mk = "\<lambda>w1. food_details_request e w1 food_id", OF _ assms(2)]
    by (simp add: get_food_details_def)
qed

lemma recognize_food_from_image_fails:
  assumes "recognize_food_from_image e req w = (out, w')" and "refresh_fails e w"
  shows "cached_token w' = cached_token w \<and> token_expiry w' = token_expiry w"
proof (cases "image_input req")
  case (Inl a)
  then show ?thesis using assms(1) by (simp add: recognize_food_from_image_def)
next
  case (Inr image_file)
  then show ?thesis
    using assms(1)
      proxy_fails [where mk = "\<lambda>w1. image_request e w1 image_file", OF _ assms(2)]
    by (simp add: recognize_food_from_image_def)
qed

lemma lookup_barcode_fails:
  assumes "lookup_barcode e req w = (out, w')" and "refresh_fails e w"
  shows "cached_token w' = cached_token w \<and> token_expiry w' = token_expiry w"
proof (cases "barcode_input req")
  case (Inl a)
  then show ?thesis using assms(1) by (simp add: lookup_barcode_def)
next
  case (Inr barcode)
  obtain early w1 where t: "barcode_ensure_token e w = (early, w1)"
    by (cases "barcode_ensure_token e w")
  note k = barcode_ensure_token_fails [OF t assms(2)]
  show ?thesis
  proof (cases early)
    case None
    then have "barcode_forward e (barcode_request e w1 barcode) w1 = (out, w')"
      using assms(1) t Inr by (simp add: lookup_barcode_def)
    from barcode_forward_effect [OF this] k show ?thesis by simp
  next
    case (Some a)
    then have "w' = w1" using assms(1) t Inr by (simp add: lookup_barcode_def)
    then show ?thesis using k by simp
  qed
qed

section \<open>The cache changes only on a successful fetch\<close>

text \<open>
  C9. Whenever a token fetch fails (the token endpoint answers with a status other than
  200, or the request raises), the run of any route, GET /fatsecret_token included,
  leaves \<^verbatim>\<open>cached_token\<close> and \<^verbatim>\<open>token_expiry\<close> exactly as they were: the two
  globals change only in the branch for status 200.
\<close>

theorem failed_fetch_keeps_cache:
  assumes "refresh_fails e w"
  shows "cached_token (snd (handle e ep req w)) = cached_token w
    \<and> token_expiry (snd (handle e ep req w)) = token_expiry w"
proof -
  obtain out w' where h: "handle e ep req w = (out, w')"
    by (cases "handle e ep req w")
  have "cached_token w' = cached_token w \<and> token_expiry w' = token_expiry w"
  proof (cases ep)
    case Fatsecret_token
    obtain tr w2 where g: "get_fatsecret_token e w = (tr, w2)"
      by (cases "get_fatsecret_token e w")
    then have "w' = w2" using h Fatsecret_token by (simp add: handle_def)
    then show ?thesis using get_fatsecret_token_fails [OF g assms] by simp
  next
    case Fatsecret_search
    then show ?thesis using h search_foods_fails [OF _ assms] by (simp add: handle_def)
  next
    case Fatsecret_food_details
    then show ?thesis using h get_food_details_fails [OF _ assms] by (simp add: handle_def)
  next
    case Fatsecret_image_recognition
    then show ?thesis
      using h recognize_food_from_image_fails [OF _ assms] by (simp add: handle_def)
  next
    case Fatsecret_barcode_lookup
    then show ?thesis using h lookup_barcode_fails [OF _ assms] by (simp add: handle_def)
  qed
  then show ?thesis using h by simp
qed

text \<open>
  An expired cache and a token endpoint that answers 401: the search route returns the
  400 of the token manager and the cache still holds the old token and expiry.
\<close>

theorem failed_fetch_keeps_cache_witness:
  "refresh_fails (example_env (\<lambda>s. Inl ''Expecting value'') (always 401 ''Unauthorized''))
      (cache_until (- 60))
   \<and> cached_token (snd (handle
        (example_env (\<lambda>s. Inl ''Expecting value'') (always 401 ''Unauthorized''))
        Fatsecret_search (json_request (JObj [(''query'', JStr ''apple'')]))
        (cache_until (- 60)))) = JStr ''T''
   \<and> token_expiry (snd (handle
        (example_env (\<lambda>s. Inl ''Expecting value'') (always 401 ''Unauthorized''))
        Fatsecret_search (json_request (JObj [(''query'', JStr ''apple'')]))
        (cache_until (- 60)))) = Some (63902822400000000 - 60000000)"
proof -
  have f: "refresh_fails (example_env (\<lambda>s. Inl ''Expecting value'') (always 401 ''Unauthorized''))
      (cache_until (- 60))"
    by (simp add: refresh_fails_def token_reply_def example_env_def always_def)
  show ?thesis
    using f failed_fetch_keeps_cache [OF f, of Fatsecret_search
        "json_request (JObj [(''query'', JStr ''apple'')])"]
    by (simp add: cache_until_def)
qed

section \<open>Validation comes first\<close>

lemma fails_validation_iff: "fails_validation ep req = (\<not> accepted ep req)"
proof (cases ep)
  case Fatsecret_token
  then show ?thesis by (simp add: fails_validation_def accepted_def)
next
  case Fatsecret_search
  then show ?thesis
    by (auto simp: fails_validation_def required_key_def accepted_def search_input_def
        split: sum.splits json.splits option.splits if_splits)
next
  case Fatsecret_food_details
  then show ?thesis
    by (auto simp: fails_validation_def required_key_def accepted_def food_details_input_def
        split: sum.splits json.splits option.splits if_splits)
next
  case Fatsecret_image_recognition
  then show ?thesis
    by (auto simp: fails_validation_def accepted_def image_input_def split: option.splits)
next
  case Fatsecret_barcode_lookup
  then show ?thesis
    by (auto simp: fails_validation_def required_key_def accepted_def barcode_input_def
        split: sum.splits json.splits option.splits if_splits)
qed

lemma caught_by_guard_fails: "caught_by_guard ep req \<Longrightarrow> fails_validation ep req"
  by (cases ep)
    (auto simp: caught_by_guard_def fails_validation_def required_key_def
      split: sum.splits json.splits option.splits if_splits)




section \<open>The upstream call of a run\<close>

lemma ensure_token_log:
  assumes "ensure_token e w = (early, w')"
  shows "log w' = log w \<or> log w' = log w @ [(token_request e, token_reply e w)]"
proof -
  obtain stale w1 where s: "cache_stale e w = (stale, w1)"
    by (cases "cache_stale e w")
  obtain tr w2 where g: "get_fatsecret_token e w1 = (tr, w2)"
    by (cases "get_fatsecret_token e w1")
  have "w' = w1 \<or> w' = w2"
    using assms s g by (auto simp: ensure_token_def split: if_splits)
  then show ?thesis
    using cache_stale_effect [OF s] cache_stale_reply [OF s] get_fatsecret_token_log [OF g]
    by auto
qed

lemma barcode_ensure_token_log:
  assumes "barcode_ensure_token e w = (early, w')"
  shows "log w' = log w \<or> log w' = log w @ [(token_request e, token_reply e w)]"
proof -
  obtain stale w1 where s: "cache_stale e w = (stale, w1)"
    by (cases "cache_stale e w")
  obtain tr w2 where g: "get_fatsecret_token e w1 = (tr, w2)"
    by (cases "get_fatsecret_token e w1")
  have "w' = w1 \<or> w' = w2"
    using assms s g by (auto simp: barcode_ensure_token_def split: if_splits)
  then show ?thesis
    using cache_stale_effect [OF s] cache_stale_reply [OF s] get_fatsecret_token_log [OF g]
    by auto
qed

lemma upstream_call_same: "upstream_call w w = None"
  by (simp add: upstream_call_def new_exchanges_def)

lemma upstream_call_none:
  assumes "log w1 = log w \<or> log w1 = log w @ [(token_request e, res)]"
  shows "upstream_call w w1 = None"
  using assms
  by (auto simp: upstream_call_def new_exchanges_def url_token_request urls_differ)

lemma upstream_call_some:
  assumes "log w1 = log w \<or> log w1 = log w @ [(token_request e, res)]"
    and "log w' = log w1 @ [(rq, res')]" and "url rq = api_url"
  shows "upstream_call w w' = Some (rq, res')"
  using assms
  by (auto simp: upstream_call_def new_exchanges_def url_token_request urls_differ)

lemma proxy_upstream:
  assumes "(case ensure_token e w of
              (Some early, w1) \<Rightarrow> (early, w1)
            | (None, w1) \<Rightarrow> forward e messages (mk w1) w1) = (out, w')"
    and "\<And>w1. url (mk w1) = api_url"
    and "upstream_call w w' = Some (rq, res)"
  shows "\<exists>w1. forward e messages rq w1 = (out, w') \<and> res = post e (length (log w1)) rq"
proof -
  obtain early w1 where t: "ensure_token e w = (early, w1)"
    by (cases "ensure_token e w")
  note l = ensure_token_log [OF t]
  show ?thesis
  proof (cases early)
    case None
    then have f: "forward e messages (mk w1) w1 = (out, w')"
      using assms(1) t by simp
    have "upstream_call w w' = Some (mk w1, post e (length (log w1)) (mk w1))"
      using upstream_call_some [OF l _ assms(2)] forward_effect [OF f] by simp
    then show ?thesis using assms(3) f by auto
  next
    case (Some a)
    then have "w' = w1" using assms(1) t by simp
    then show ?thesis using upstream_call_none [OF l] assms(3) by simp
  qed
qed

lemma search_foods_upstream:
  assumes "search_foods e req w = (out, w')" and "upstream_call w w' = Some (rq, res)"
  shows "\<exists>w1. forward e search_messages rq w1 = (out, w') \<and> res = post e (length (log w1)) rq"
proof (cases "search_input req")
  case (Inl a)
  then show ?thesis using assms by (simp add: search_foods_def upstream_call_same)
next
  case (Inr args)
  have u: "\<And>w1. url (search_request e w1 args) = api_url"
    by (simp add: search_request_def url_form_request split: prod.splits)
  show ?thesis
    using assms(1) Inr
      proxy_upstream [where mk = "\<lambda>w1. search_request e w1 args", OF _ u assms(2)]
    by (simp add: search_foods_def)
qed

lemma get_food_details_upstream:
  assumes "get_food_details e req w = (out, w')" and "upstream_call w w' = Some (rq, res)"
  shows "\<exists>w1. forward e food_details_messages rq w1 = (out, w')
    \<and> res = post e (length (log w1)) rq"
proof (cases "food_details_input req")
  case (Inl a)
  then show ?thesis using assms by (simp add: get_food_details_def upstream_call_same)
next
  case (Inr food_id)
  have u: "\<And>w1. url (food_details_request e w1 food_id) = api_url"
    by (simp add: food_details_request_def url_form_request)
  show ?thesis
    using assms(1) Inr
      proxy_upstream [where mk = "\<lambda>w1. food_details_request e w1 food_id", OF _ u assms(2)]
    by (simp add: get_food_details_def)
qed

lemma recognize_food_from_image_upstream:
  assumes "recognize_food_from_image e req w = (out, w')"
    and "upstream_call w w' = Some (rq, res)"
  shows "\<exists>w1. forward e image_messages rq w1 = (out, w') \<and> res = post e (length (log w1)) rq"
proof (cases "image_input req")
  case (Inl a)
  then show ?thesis using assms by (simp add: recognize_food_from_image_def upstream_call_same)
next
  case (Inr image_file)
  have u: "\<And>w1. url (image_request e w1 image_file) = api_url"
    by (simp add: url_image_request)
  show ?thesis
    using assms(1) Inr
      proxy_upstream [where mk = "\<lambda>w1. image_request e w1 image_file", OF _ u assms(2)]
    by (simp add: recognize_food_from_image_def)
qed

lemma lookup_barcode_upstream:
  assumes "lookup_barcode e req w = (out, w')" and "upstream_call w w' = Some (rq, res)"
  shows "\<exists>w1. barcode_forward e rq w1 = (out, w') \<and> res = post e (length (log w1)) rq"
proof (cases "barcode_input req")
  case (Inl a)
  then show ?thesis using assms by (simp add: lookup_barcode_def upstream_call_same)
next
  case (Inr barcode)
  obtain early w1 where t: "barcode_ensure_token e w = (early, w1)"
    by (cases "barcode_ensure_token e w")
  note l = barcode_ensure_token_log [OF t]
  have u: "url (barcode_request e w1 barcode) = api_url"
    by (simp add: barcode_request_def url_form_request)
  show ?thesis
  proof (cases early)
    case None
    then have f: "barcode_forward e (barcode_request e w1 barcode) w1 = (out, w')"
      using assms(1) t Inr by (simp add: lookup_barcode_def)
    have "upstream_call w w'
        = Some (barcode_request e w1 barcode,
                post e (length (log w1)) (barcode_request e w1 barcode))"
      using upstream_call_some [OF l _ u] barcode_forward_effect [OF f] by simp
    then show ?thesis using assms(2) f by auto
  next
    case (Some a)
    then have "w' = w1" using assms(1) t Inr by (simp add: lookup_barcode_def)
    then show ?thesis using upstream_call_none [OF l] assms(2) by simp
  qed
qed

lemma forward_not_200:
  assumes "forward e messages rq w = (out, w')"
    and "post e (length (log w)) rq = Returns r" and "status_code r \<noteq> 200"
  shows "out = Response
      (JObj [(''error'', JStr (''FatSecret API returned status '' @ str_int (status_code r))),
             (''details'', JStr (body_text r))])
      (status_code r)"
  using assms by (auto simp: forward_def requests_post_def Let_def)

lemma forward_200:
  assumes "forward e messages rq w = (out, w')"
    and "post e (length (log w)) rq = Returns r" and "status_code r = 200"
    and "json_loads e (body_text r) = Inr response_data"
  shows "out = Response response_data 200"
  using assms by (auto simp: forward_def requests_post_def response_json_def Let_def)

lemma barcode_response_found:
  assumes "map_of kvs ''food_id'' = Some (JObj food_id)"
    and "map_of food_id ''value'' = Some v"
    and "map_of kvs ''error'' = None"
  shows "barcode_response (JObj kvs)
    = Inr (JObj [(''food_id'', v), (''food_name'', JStr ''Food Item (Details will be fetched)'')],
           200)"
proof -
  have ne: "food_id \<noteq> []" using assms(2) by auto
  have "has_food_id_value (JObj kvs) = Inr True"
    using assms ne by (simp add: has_food_id_value_def)
  moreover have "barcode_found (JObj kvs)
    = Inr (JObj [(''food_id'', v), (''food_name'', JStr ''Food Item (Details will be fetched)'')],
           200)"
    using assms ne by (simp add: barcode_found_def)
  ultimately show ?thesis by (simp add: barcode_response_def)
qed

section \<open>What the proxy handlers make of the upstream answer\<close>

text \<open>
  Seen from the run: whenever a search, food-details or image-recognition run did send
  its request to the food API and got a status other than 200, it returned the error
  body with that status.
\<close>

lemma non_200_mapped:
  assumes "ep = Fatsecret_search \<or> ep = Fatsecret_food_details
      \<or> ep = Fatsecret_image_recognition"
    and "handle e ep req w = (out, w')"
    and "upstream_call w w' = Some (rq, Returns r)"
    and "status_code r \<noteq> 200"
  shows "out = Response
      (JObj [(''error'', JStr (''FatSecret API returned status '' @ str_int (status_code r))),
             (''details'', JStr (body_text r))])
      (status_code r)"
proof -
  have "\<exists>messages w1. forward e messages rq w1 = (out, w')
      \<and> Returns r = post e (length (log w1)) rq"
    using assms(1)
  proof (elim disjE)
    assume "ep = Fatsecret_search"
    then have "search_foods e req w = (out, w')"
      using assms(2) by (simp add: handle_def)
    from search_foods_upstream [OF this assms(3)] show ?thesis by blast
  next
    assume "ep = Fatsecret_food_details"
    then have "get_food_details e req w = (out, w')"
      using assms(2) by (simp add: handle_def)
    from get_food_details_upstream [OF this assms(3)] show ?thesis by blast
  next
    assume "ep = Fatsecret_image_recognition"
    then have "recognize_food_from_image e req w = (out, w')"
      using assms(2) by (simp add: handle_def)
    from recognize_food_from_image_upstream [OF this assms(3)] show ?thesis by blast
  qed
  then obtain messages w1 where f: "forward e messages rq w1 = (out, w')"
    and p: "post e (length (log w1)) rq = Returns r"
    by auto
  show ?thesis by (rule forward_not_200 [OF f p assms(4)])
qed

text \<open>A fresh cache passes the token step at the cost of one reading of the clock.\<close>

lemma fresh_cache_passes:
  assumes "truthy (cached_token w)" and "token_expiry w = Some expiry"
    and "clock e (tick w) < expiry"
  shows "ensure_token e w = (None, w\<lparr>tick := Suc (tick w)\<rparr>)"
  using assms by (simp add: ensure_token_def cache_stale_def datetime_now_def)

text \<open>
  C7. Take a search, food-details or image-recognition request that passes its
  validation, a token step that lets the handler through (the cache is fresh, or the
  refresh returned 200) and leaves the world \<open>w1\<close>, and a network that answers the
  handler's request to the food API with a status other than 200. Then the handler
  sends that request and returns a body with the fields \<^verbatim>\<open>error\<close> and
  \<^verbatim>\<open>details\<close>, the latter the raw text of the upstream body, and its status is the
  upstream status.
\<close>

theorem upstream_status_passed_on:
  assumes "ep = Fatsecret_search \<or> ep = Fatsecret_food_details
      \<or> ep = Fatsecret_image_recognition"
    and "api_request e ep req w1 = Some rq"
    and "ensure_token e w = (None, w1)"
    and "post e (length (log w1)) rq = Returns r"
    and "status_code r \<noteq> 200"
  shows "handle e ep req w
    = (Response
         (JObj [(''error'', JStr (''FatSecret API returned status '' @ str_int (status_code r))),
                (''details'', JStr (body_text r))])
         (status_code r),
       w1\<lparr>log := log w1 @ [(rq, Returns r)]\<rparr>)"
  using assms(1)
proof (elim disjE)
  assume "ep = Fatsecret_search"
  then show ?thesis
    using assms(2-5)
    by (auto simp: handle_def search_foods_def api_request_def forward_def requests_post_def
        Let_def split: sum.splits)
next
  assume "ep = Fatsecret_food_details"
  then show ?thesis
    using assms(2-5)
    by (auto simp: handle_def get_food_details_def api_request_def forward_def
        requests_post_def Let_def split: sum.splits)
next
  assume "ep = Fatsecret_image_recognition"
  then show ?thesis
    using assms(2-5)
    by (auto simp: handle_def recognize_food_from_image_def api_request_def forward_def
        requests_post_def Let_def split: sum.splits)
qed

text \<open>
  The three routes. A search and a food-details request with a fresh cache, which the
  food API answers with 503 and 429; an image upload on an empty cache, for which the
  token endpoint grants a token and the food API answers with 500.
\<close>

theorem upstream_status_passed_on_witness:
  "fst (handle (example_env example_loads (always 503 ''Service Unavailable''))
        Fatsecret_search (json_request (JObj [(''query'', JStr ''apple'')])) (cache_until 3600))
     = Response (JObj [(''error'', JStr ''FatSecret API returned status 503''),
                       (''details'', JStr ''Service Unavailable'')]) 503
   \<and> fst (handle (example_env example_loads (always 429 ''Too Many Requests''))
        Fatsecret_food_details (json_request (JObj [(''food_id'', JStr ''12345'')]))
        (cache_until 3600))
     = Response (JObj [(''error'', JStr ''FatSecret API returned status 429''),
                       (''details'', JStr ''Too Many Requests'')]) 429
   \<and> fst (handle
        (example_env example_loads
           (example_net ''{\"access_token\": \"T2\", \"expires_in\": 86400}'' 500
              ''Internal Server Error''))
        Fatsecret_image_recognition image_upload no_cache)
     = Response (JObj [(''error'', JStr ''FatSecret API returned status 500''),
                       (''details'', JStr ''Internal Server Error'')]) 500"
proof -
  let ?e1 = "example_env example_loads (always 503 ''Service Unavailable'')"
  let ?e2 = "example_env example_loads (always 429 ''Too Many Requests'')"
  let ?e3 = "example_env example_loads
      (example_net ''{\"access_token\": \"T2\", \"expires_in\": 86400}'' 500
         ''Internal Server Error'')"
  let ?w = "cache_until 3600"
  let ?w1 = "(cache_until 3600)\<lparr>tick := Suc (tick (cache_until 3600))\<rparr>"
  let ?req1 = "json_request (JObj [(''query'', JStr ''apple'')])"
  let ?req2 = "json_request (JObj [(''food_id'', JStr ''12345'')])"
  let ?rq1 = "search_request ?e1 ?w1 (JStr ''apple'', JStr ''0'', JStr ''10'')"
  let ?rq2 = "food_details_request ?e2 ?w1 (JStr ''12345'')"
  let ?w3 = "snd (ensure_token ?e3 no_cache)"
  let ?rq3 = "image_request ?e3 ?w3
      \<lparr>filename = ''meal.jpg'', content = ''JFIF'', content_type = ''image/jpeg''\<rparr>"
  let ?r1 = "\<lparr>status_code = 503, body_text = ''Service Unavailable''\<rparr>"
  let ?r2 = "\<lparr>status_code = 429, body_text = ''Too Many Requests''\<rparr>"
  let ?r3 = "\<lparr>status_code = 500, body_text = ''Internal Server Error''\<rparr>"
  have t1: "ensure_token ?e1 ?w = (None, ?w1)"
    by (rule fresh_cache_passes [where expiry = "63902822400000000 + 3600 * 1000000"])
      (simp_all add: cache_until_def example_env_def)
  have t2: "ensure_token ?e2 ?w = (None, ?w1)"
    by (rule fresh_cache_passes [where expiry = "63902822400000000 + 3600 * 1000000"])
      (simp_all add: cache_until_def example_env_def)
  have "fst (ensure_token ?e3 no_cache) = None"
    by (simp add: ensure_token_def cache_stale_def get_fatsecret_token_def fetch_token_def
        token_success_def token_request_def requests_post_def datetime_now_def no_cache_def
        example_env_def example_net_def example_loads_def timedelta_in_range_def
        datetime_in_range_def Let_def)
  then have t3: "ensure_token ?e3 no_cache = (None, ?w3)"
    by (simp add: prod_eq_iff)
  have a1: "api_request ?e1 Fatsecret_search ?req1 ?w1 = Some ?rq1"
    by (simp add: api_request_def search_input_def json_request_def)
  have a2: "api_request ?e2 Fatsecret_food_details ?req2 ?w1 = Some ?rq2"
    by (simp add: api_request_def food_details_input_def json_request_def)
  have a3: "api_request ?e3 Fatsecret_image_recognition image_upload ?w3 = Some ?rq3"
    by (simp add: api_request_def image_input_def image_upload_def)
  have p1: "post ?e1 (length (log ?w1)) ?rq1 = Returns ?r1"
    by (simp add: example_env_def always_def)
  have p2: "post ?e2 (length (log ?w1)) ?rq2 = Returns ?r2"
    by (simp add: example_env_def always_def)
  have p3: "post ?e3 (length (log ?w3)) ?rq3 = Returns ?r3"
    by (simp add: example_env_def example_net_def image_request_def api_url_def token_url_def)
  have s: "status_code ?r1 \<noteq> 200" "status_code ?r2 \<noteq> 200" "status_code ?r3 \<noteq> 200"
    by simp_all
  have h1: "fst (handle ?e1 Fatsecret_search ?req1 ?w)
      = Response (JObj [(''error'', JStr ''FatSecret API returned status 503''),
                        (''details'', JStr ''Service Unavailable'')]) 503"
    using upstream_status_passed_on [OF _ a1 t1 p1 s(1)] by (simp add: str_int_def)
  have h2: "fst (handle ?e2 Fatsecret_food_details ?req2 ?w)
      = Response (JObj [(''error'', JStr ''FatSecret API returned status 429''),
                        (''details'', JStr ''Too Many Requests'')]) 429"
    using upstream_status_passed_on [OF _ a2 t2 p2 s(2)] by (simp add: str_int_def)
  have h3: "fst (handle ?e3 Fatsecret_image_recognition image_upload no_cache)
      = Response (JObj [(''error'', JStr ''FatSecret API returned status 500''),
                        (''details'', JStr ''Internal Server Error'')]) 500"
    using upstream_status_passed_on [OF _ a3 t3 p3 s(3)] by (simp add: str_int_def)
  show ?thesis using h1 h2 h3 by simp
qed

text \<open>
  C6. When the call to the food API of a food-details request (which is made only for a
  non-empty \<^verbatim>\<open>food_id\<close> and with a token in the cache) returns 200 and a body that
  parses as JSON, the handler returns the parsed body as it is, with status 200.
\<close>

theorem food_details_passed_through:
  assumes "get_food_details e req w = (out, w')"
    and "upstream_call w w' = Some (rq, Returns r)"
    and "status_code r = 200"
    and "json_loads e (body_text r) = Inr response_data"
  shows "out = Response response_data 200"
proof -
  obtain w1 where f: "forward e food_details_messages rq w1 = (out, w')"
    and p: "post e (length (log w1)) rq = Returns r"
    using get_food_details_upstream [OF assms(1, 2)] by auto
  show ?thesis by (rule forward_200 [OF f p assms(3, 4)])
qed

text \<open>
  The example of the specification: \<^verbatim>\<open>{"food_id": "12345"}\<close> with a fresh cache, and
  an upstream 200 with the body \<^verbatim>\<open>{"food": {"food_id": "12345"}}\<close>.
\<close>

theorem food_details_passed_through_witness:
  "upstream_call (cache_until 3600)
     (snd (get_food_details
        (example_env example_loads (always 200 ''{\"food\": {\"food_id\": \"12345\"}}''))
        (json_request (JObj [(''food_id'', JStr ''12345'')])) (cache_until 3600)))
   = Some (food_details_request
             (example_env example_loads (always 200 ''{\"food\": {\"food_id\": \"12345\"}}''))
             (cache_until 3600) (JStr ''12345''),
           Returns \<lparr>status_code = 200, body_text = ''{\"food\": {\"food_id\": \"12345\"}}''\<rparr>)
   \<and> fst (get_food_details
        (example_env example_loads (always 200 ''{\"food\": {\"food_id\": \"12345\"}}''))
        (json_request (JObj [(''food_id'', JStr ''12345'')])) (cache_until 3600))
   = Response (JObj [(''food'', JObj [(''food_id'', JStr ''12345'')])]) 200"
proof -
  let ?body = "''{\"food\": {\"food_id\": \"12345\"}}''"
  let ?e = "example_env example_loads (always 200 ?body)"
  let ?req = "json_request (JObj [(''food_id'', JStr ''12345'')])"
  let ?rq = "food_details_request ?e (cache_until 3600) (JStr ''12345'')"
  let ?r = "\<lparr>status_code = 200, body_text = ?body\<rparr>"
  have u: "upstream_call (cache_until 3600) (snd (get_food_details ?e ?req (cache_until 3600)))
    = Some (?rq, Returns ?r)"
    by (simp add: get_food_details_def food_details_input_def json_request_def
        ensure_token_def cache_stale_def datetime_now_def cache_until_def example_env_def
        forward_def requests_post_def always_def food_details_request_def form_request_def
        bearer_def upstream_call_def new_exchanges_def api_url_def Let_def)
  have s: "status_code ?r = 200" by simp
  have l: "json_loads ?e (body_text ?r) = Inr (JObj [(''food'', JObj [(''food_id'', JStr ''12345'')])])"
    by (simp add: example_env_def example_loads_def)
  show ?thesis
    using u food_details_passed_through [OF surjective_pairing u s l] by simp
qed

lemma barcode_forward_200:
  assumes "barcode_forward e rq w = (out, w')"
    and "post e (length (log w)) rq = Returns r" and "status_code r = 200"
    and "json_loads e (body_text r) = Inr response_data"
    and "barcode_response response_data = Inr (body, status)"
  shows "out = Response body status"
  using assms by (auto simp: barcode_forward_def requests_post_def response_json_def Let_def)

text \<open>
  C5. When the call to the food API of a barcode lookup returns 200 and a JSON object
  that holds an object with a field \<^verbatim>\<open>value\<close> under \<^verbatim>\<open>food_id\<close> and has no key
  \<^verbatim>\<open>error\<close>, the handler returns status 200 and exactly the two fields
  \<^verbatim>\<open>food_id\<close>, that value, and \<^verbatim>\<open>food_name\<close>, the fixed placeholder.
\<close>

theorem barcode_found_returns_id:
  assumes "lookup_barcode e req w = (out, w')"
    and "upstream_call w w' = Some (rq, Returns r)"
    and "status_code r = 200"
    and "json_loads e (body_text r) = Inr (JObj kvs)"
    and "map_of kvs ''food_id'' = Some (JObj food_id)"
    and "map_of food_id ''value'' = Some v"
    and "map_of kvs ''error'' = None"
  shows "out = Response
      (JObj [(''food_id'', v), (''food_name'', JStr ''Food Item (Details will be fetched)'')])
      200"
proof -
  obtain w1 where f: "barcode_forward e rq w1 = (out, w')"
    and p: "post e (length (log w1)) rq = Returns r"
    using lookup_barcode_upstream [OF assms(1, 2)] by auto
  show ?thesis
    by (rule barcode_forward_200 [OF f p assms(3, 4) barcode_response_found [OF assms(5-7)]])
qed

text \<open>
  The example of the specification, on an empty cache: the token endpoint grants a
  token, then the food API answers \<^verbatim>\<open>{"food_id": {"value": "999"}}\<close>.
\<close>

theorem barcode_found_returns_id_witness:
  "upstream_call no_cache
     (snd (lookup_barcode
        (example_env example_loads
           (example_net ''{\"access_token\": \"T2\", \"expires_in\": 86400}'' 200
              ''{\"food_id\": {\"value\": \"999\"}}''))
        (json_request (JObj [(''barcode'', JStr ''0123456789012'')])) no_cache))
   = Some (\<lparr>url = api_url,
            headers = [(''Authorization'', ''Bearer T2''),
                       (''Content-Type'', ''application/x-www-form-urlencoded'')],
            payload = Form [(''method'', JStr ''food.find_id_for_barcode''),
                            (''barcode'', JStr ''0123456789012''),
                            (''format'', JStr ''json'')]\<rparr>,
           Returns \<lparr>status_code = 200, body_text = ''{\"food_id\": {\"value\": \"999\"}}''\<rparr>)
   \<and> fst (lookup_barcode
        (example_env example_loads
           (example_net ''{\"access_token\": \"T2\", \"expires_in\": 86400}'' 200
              ''{\"food_id\": {\"value\": \"999\"}}''))
        (json_request (JObj [(''barcode'', JStr ''0123456789012'')])) no_cache)
   = Response (JObj [(''food_id'', JStr ''999''),
                     (''food_name'', JStr ''Food Item (Details will be fetched)'')]) 200"
proof -
  let ?body = "''{\"food_id\": {\"value\": \"999\"}}''"
  let ?e = "example_env example_loads
      (example_net ''{\"access_token\": \"T2\", \"expires_in\": 86400}'' 200 ?body)"
  let ?req = "json_request (JObj [(''barcode'', JStr ''0123456789012'')])"
  let ?rq = "\<lparr>url = api_url,
      headers = [(''Authorization'', ''Bearer T2''),
                 (''Content-Type'', ''application/x-www-form-urlencoded'')],
      payload = Form [(''method'', JStr ''food.find_id_for_barcode''),
                      (''barcode'', JStr ''0123456789012''),
                      (''format'', JStr ''json'')]\<rparr>"
  let ?r = "\<lparr>status_code = 200, body_text = ?body\<rparr>"
  have u: "upstream_call no_cache (snd (lookup_barcode ?e ?req no_cache)) = Some (?rq, Returns ?r)"
    by (simp add: lookup_barcode_def barcode_input_def json_request_def
        barcode_ensure_token_def cache_stale_def get_fatsecret_token_def fetch_token_def
        token_success_def token_request_def datetime_now_def no_cache_def example_env_def
        example_net_def example_loads_def timedelta_in_range_def datetime_in_range_def
        barcode_token_check_def barcode_forward_def requests_post_def barcode_request_def
        form_request_def bearer_def upstream_call_def new_exchanges_def api_url_def
        token_url_def Let_def)
  have s: "status_code ?r = 200" by simp
  have l: "json_loads ?e (body_text ?r) = Inr (JObj [(''food_id'', JObj [(''value'', JStr ''999'')])])"
    by (simp add: example_env_def example_loads_def)
  show ?thesis
    using u barcode_found_returns_id [OF surjective_pairing u s l, of "[(''value'', JStr ''999'')]" "JStr ''999''"]
    by simp
qed

section \<open>One refresh, before the upstream call\<close>














section \<open>Validation of a search\<close>




section \<open>The cached token and its remaining seconds\<close>

text \<open>
  What GET /fatsecret_token does while the cache is fresh at the reading of line 35: it
  sends nothing, leaves both globals as they were, and returns 200 with the cached token
  itself. The number under \<^verbatim>\<open>expires_in\<close> is the \<^verbatim>\<open>seconds\<close> field of the
  difference to a second reading of the clock.
\<close>

lemma cached_token_reused:
  assumes "truthy (cached_token w)" and "token_expiry w = Some expiry"
    and "clock e (tick w) < expiry"
  shows "get_fatsecret_token e w
    = ((JObj [(''access_token'', cached_token w),
              (''expires_in'', JInt (timedelta_seconds_field (expiry - clock e (Suc (tick w)))))],
        200),
       w\<lparr>tick := Suc (Suc (tick w))\<rparr>)"
  using assms by (simp add: get_fatsecret_token_def datetime_now_def)

text \<open>The \<^verbatim>\<open>seconds\<close> field is the number of whole seconds only below one day.\<close>

lemma seconds_field_below_a_day:
  assumes "0 \<le> us" and "us < 86400 * 1000000"
  shows "timedelta_seconds_field us = us div 1000000"
  using assms by (simp add: timedelta_seconds_field_def)

text \<open>
  C2 holds but for the remaining seconds. The token endpoint grants a token for 90000
  seconds (25 hours); the next GET /fatsecret_token, two microseconds later, answers
  from the cache with \<^verbatim>\<open>expires_in\<close> 3599 where 89999 whole seconds remain:
  \<^verbatim>\<open>.seconds\<close> drops the day that \<^verbatim>\<open>.total_seconds()\<close> would count.
\<close>

theorem remaining_seconds_drop_days:
  "fst (get_fatsecret_token
          (example_env example_loads
             (always 200 ''{\"access_token\": \"T2\", \"expires_in\": 90000}''))
          no_cache)
     = (JObj [(''access_token'', JStr ''T2''), (''expires_in'', JInt 90000)], 200)
   \<and> fst (get_fatsecret_token
          (example_env example_loads
             (always 200 ''{\"access_token\": \"T2\", \"expires_in\": 90000}''))
          (snd (get_fatsecret_token
             (example_env example_loads
                (always 200 ''{\"access_token\": \"T2\", \"expires_in\": 90000}''))
             no_cache)))
     = (JObj [(''access_token'', JStr ''T2''), (''expires_in'', JInt 3599)], 200)"
  by (simp add: get_fatsecret_token_def fetch_token_def token_success_def token_request_def
      requests_post_def datetime_now_def no_cache_def example_env_def always_def
      example_loads_def timedelta_in_range_def datetime_in_range_def
      timedelta_seconds_field_def Let_def)

section \<open>The error object of a barcode lookup\<close>

text \<open>
  The branch for an \<^verbatim>\<open>error\<close> object returns 404 for the code 106 and raises for
  every other body: it never returns 400.
\<close>

lemma barcode_error_only_404:
  assumes "barcode_error response_data = Inr (body, status)"
  shows "status = 404 \<and> body = JObj [(''error'', JStr ''Food not found for this barcode'')]"
  using assms
  by (auto simp: barcode_error_def split: sum.splits if_splits json.splits)

lemma barcode_error_106:
  assumes "map_of kvs ''error'' = Some (JObj err)" and "map_of err ''code'' = Some (JInt 106)"
    and "map_of kvs ''food_id'' = None"
  shows "barcode_response (JObj kvs)
    = Inr (JObj [(''error'', JStr ''Food not found for this barcode'')], 404)"
  using assms
  by (simp add: barcode_response_def has_food_id_value_def barcode_error_def
      split: option.splits)

text \<open>
  C3 is right about the intent and the code misses it. With a fresh cache, an upstream
  200 whose error object has a code other than 106 ends in the last \<^verbatim>\<open>except\<close>
  clause with status 500, whether the message says \<^verbatim>\<open>No item found\<close> (the claim: 404)
  or not (the claim: 400): \<^verbatim>\<open>str\<close> has no method \<^verbatim>\<open>contains\<close>.
\<close>

theorem barcode_error_message_raises:
  "barcode_response
     (JObj [(''error'', JObj [(''code'', JInt 211), (''message'', JStr ''No item found'')])])
     = Inl (Interp (NoAttribute ''str'' ''contains''))
   \<and> fst (lookup_barcode
        (example_env example_loads
           (always 200 ''{\"error\": {\"code\": 211, \"message\": \"No item found\"}}''))
        (json_request (JObj [(''barcode'', JStr ''0123456789012'')])) (cache_until 3600))
     = Response (JObj [(''error'', JStr ''Unexpected exception during barcode lookup''),
                       (''details'', JStr ''interpreter error'')]) 500
   \<and> fst (lookup_barcode
        (example_env example_loads
           (always 200 ''{\"error\": {\"code\": 2, \"message\": \"Missing required oauth parameter\"}}''))
        (json_request (JObj [(''barcode'', JStr ''0123456789012'')])) (cache_until 3600))
     = Response (JObj [(''error'', JStr ''Unexpected exception during barcode lookup''),
                       (''details'', JStr ''interpreter error'')]) 500"
  by (simp add: lookup_barcode_def barcode_input_def json_request_def barcode_ensure_token_def
      cache_stale_def datetime_now_def cache_until_def example_env_def always_def
      example_loads_def barcode_forward_def requests_post_def barcode_request_def
      form_request_def bearer_def response_json_def barcode_response_def
      has_food_id_value_def barcode_error_def except_chain_def barcode_messages_def Let_def)

section \<open>A refused token request\<close>

text \<open>
  What the branch for a status other than 200 returns when the body is not JSON, or is a
  JSON object: status 400, the upstream status in the error, and as details the field
  \<^verbatim>\<open>error_description\<close>, else the field \<^verbatim>\<open>error\<close>, else the raw text.
\<close>

lemma token_failure_not_json:
  assumes "json_loads e (body_text r) = Inl m" and "is_ValueError (response_json_error e m)"
  shows "token_failure e r
    = Inr (JObj [(''error'', JStr (''FatSecret token request failed: '' @ str_int (status_code r))),
                 (''details'', JStr (body_text r))], 400)"
  using assms by (simp add: token_failure_def error_details_from_json_def response_json_def)

lemma token_failure_object:
  assumes "json_loads e (body_text r) = Inr (JObj kvs)"
  shows "token_failure e r
    = Inr (JObj [(''error'', JStr (''FatSecret token request failed: '' @ str_int (status_code r))),
                 (''details'',
                  (case map_of kvs ''error_description'' of
                     Some v \<Rightarrow> v
                   | None \<Rightarrow>
                       (case map_of kvs ''error'' of
                          Some v \<Rightarrow> v
                        | None \<Rightarrow> JStr (body_text r))))], 400)"
  using assms
  by (auto simp: token_failure_def error_details_from_json_def response_json_def
      split: option.splits)

text \<open>
  C8 is right about the intent and the code misses a case. The token endpoint answers
  401 with the body \<^verbatim>\<open>null\<close>, which is JSON and not an object: the test
  \<^verbatim>\<open>'error_description' in error_json\<close> raises a \<^verbatim>\<open>TypeError\<close>, which the inner
  \<^verbatim>\<open>except ValueError\<close> does not catch, and the outer clause answers 500 with an error
  that does not carry the upstream status.
\<close>

theorem refused_token_scalar_body:
  "error_details_from_json (example_env example_loads (always 401 ''null''))
     \<lparr>status_code = 401, body_text = ''null''\<rparr>
     = Inl (Interp (NotContainer ''NoneType''))
   \<and> fst (get_fatsecret_token (example_env example_loads (always 401 ''null'')) no_cache)
     = (JObj [(''error'', JStr ''Exception during token fetch''),
              (''details'', JStr ''interpreter error'')], 500)"
  by (simp add: get_fatsecret_token_def fetch_token_def token_failure_def
      error_details_from_json_def response_json_def token_exception_def token_request_def
      requests_post_def no_cache_def example_env_def always_def example_loads_def Let_def)

end
